theory Spec2Isabelle
  imports Complex_Main "HOL-Library.Word" "HOL-Library.Monad_Syntax"
begin

section \<open>Diffuse particle simulation: a shallow embedding of DiffuseCalculator.cpp\<close>

text \<open>
  The C++ \<open>double\<close> is modelled as \<^typ>\<open>real\<close>: rounding, overflow and NaN are outside
  the model. A division whose divisor is zero gives an infinity or a NaN in IEEE-754
  arithmetic, a value no real number stands for, so every such division of the source
  goes through \<open>fdiv\<close>, and a computation that would produce such a value is \<open>None\<close>.
  \<open>None\<close> is also the result of an access outside a vector and of a vector constructed
  with a negative length. The OpenMP loops are taken in their sequential order, so the
  shared counters \<open>idif\<close> and \<open>difId\<close> of the spawner are incremented one particle after
  the other.
\<close>

definition fdiv :: "real \<Rightarrow> real \<Rightarrow> real option" where
  "fdiv a b = (if b = 0 then None else Some (a / b))"

type_synonym vec3 = "real \<times> real \<times> real"

subsection \<open>Ops.h\<close>

text \<open>
  Modelled from the spec: the header Ops.h (\<open>ops::substract\<close>, \<open>ops::magnitude\<close>,
  \<open>ops::dotProduct\<close>, \<open>ops::normalize\<close>) is not among the sources. Section 4.1 of the
  specification: component-wise subtract, dot, magnitude \<open>sqrt (x\<^sup>2 + y\<^sup>2 + z\<^sup>2)\<close>,
  normalize (magnitude 1; normalizing a zero vector is undefined, here \<open>None\<close>).
\<close>

fun substract :: "vec3 \<Rightarrow> vec3 \<Rightarrow> vec3" where
  "substract (a0, a1, a2) (b0, b1, b2) = (a0 - b0, a1 - b1, a2 - b2)"

fun magnitude :: "vec3 \<Rightarrow> real" where
  "magnitude (a0, a1, a2) = sqrt (a0 * a0 + a1 * a1 + a2 * a2)"

fun dotProduct :: "vec3 \<Rightarrow> vec3 \<Rightarrow> real" where
  "dotProduct (a0, a1, a2) (b0, b1, b2) = a0 * b0 + a1 * b1 + a2 * b2"

definition normalize :: "vec3 \<Rightarrow> vec3 option" where
  "normalize a = (case a of (a0, a1, a2) \<Rightarrow>
     do { n0 \<leftarrow> fdiv a0 (magnitude a);
          n1 \<leftarrow> fdiv a1 (magnitude a);
          n2 \<leftarrow> fdiv a2 (magnitude a);
          Some (n0, n1, n2) })"

subsection \<open>Parameters and particles\<close>

text \<open>
  Modelled from the spec: SimulationParams.h (\<open>SimulationParams\<close>, \<open>TimeOut\<close>) is not
  among the sources. The fields are the parameters of section 3 of the specification that
  the simulation reads, with the types the Python module parses them to (\<open>i\<close> for int,
  \<open>d\<close> for double). The smoothing length \<open>sp.h\<close> is the field \<open>sp_h\<close>; \<open>ntimesteps\<close> is
  the length of \<open>timesteps\<close>. The loop variable \<open>nstep\<close> of the driver is an \<open>int\<close>; it is
  an \<^typ>\<open>int\<close> here, which leaves out \<open>nend = INT_MAX\<close>, where its increment overflows.
\<close>

record TimeOut =
  nstep :: int
  tout :: real

record SimulationParams =
  nstart :: int
  nend :: int
  sp_h :: real
  mass :: real
  MINX :: real
  MINY :: real
  MINZ :: real
  MAXX :: real
  MAXY :: real
  MAXZ :: real
  MINTA :: real
  MAXTA :: real
  MINWC :: real
  MAXWC :: real
  MINK :: real
  MAXK :: real
  KTA :: real
  KWC :: real
  SPRAY :: real
  BUBBLES :: real
  LIFEFIME :: real
  KB :: real
  KD :: real
  timesteps :: "TimeOut list"

text \<open>
  Modelled from the spec: FluidData.h is not among the sources. A fluid particle of the
  loaded snapshot (section 3 of the specification): dense id, position, velocity, density.
\<close>

record particle =
  pid :: nat
  pos :: vec3
  vel :: vec3
  rhop :: real

text \<open>
  A diffuse particle. The source keeps five vectors in lock-step (\<open>ppPosit\<close>, \<open>ppVel\<close>,
  \<open>ppIds\<close>, \<open>ppTTL\<close>, \<open>ppDensity\<close>, and the \<open>diffuse*\<close> and \<open>temp*\<close> ones), always
  written at the same index; the model keeps one list of records. \<open>ppIds\<close> is a
  \<open>std::vector<int>\<close>, so an id is a 32-bit word read as signed. \<open>ppTTL\<close> is a
  \<open>std::vector<int>\<close> too; the only arithmetic on it is the decrement, which overflows
  at \<open>INT_MIN\<close> alone (undefined in C++), so it is an \<^typ>\<open>int\<close> here.
\<close>

record diffuse =
  dPosit :: vec3
  dVel :: vec3
  dIds :: "32 word"
  dTTL :: int
  dDensity :: real

subsection \<open>Clamping function and kernel\<close>

text \<open>\<open>DiffuseCalculator::phi\<close>; \<open>fmin\<close> of two reals is \<open>min\<close>.\<close>

definition phi :: "real \<Rightarrow> real \<Rightarrow> real \<Rightarrow> real option" where
  "phi I tmin tmax = fdiv (min I tmax - min I tmin) (tmax - tmin)"

text \<open>
  \<open>DiffuseCalculator::Wwendland\<close>. For \<open>h = 0\<close> the quotient \<open>q\<close> is an infinity or a
  NaN, the guard \<open>q >= 0 && q <= 2\<close> is false and the result is 0.
\<close>

definition Wwendland :: "vec3 \<Rightarrow> real \<Rightarrow> real" where
  "Wwendland xij hh =
     (if hh = 0 then 0
      else let mxij = magnitude xij; q = mxij / hh in
        if q \<ge> 0 \<and> q \<le> 2 then
          let ad = 21 / (16 * pi * hh * hh * hh); e1 = 1 - (q / 2)
          in ad * e1 * e1 * e1 * e1 * (2 * q + 1)
        else 0)"

subsection \<open>Stages 1, 4 and 5: energy, clamping, number of diffuse particles\<close>

text \<open>
  What the loader (FluidData, BucketContainer: not among the sources) and the first three
  passes give for one frame: the fluid particles in the order of the non-empty buckets,
  the particles of the buckets surrounding a point (\<open>getSurroundingBuckets\<close>, flattened),
  the pair \<open>(Ita[i], waveCrest[i])\<close> after pass 3 for each \<open>i < npoints\<close>, and the draws
  of \<open>xunif(gen)\<close> that fill \<open>tempRand\<close>.
\<close>

record snapshot =
  fluid :: "particle list"
  surrounding :: "vec3 \<Rightarrow> particle list"
  passes :: "(real \<times> real) list"
  tempRand :: "nat \<Rightarrow> real"

definition npoints :: "snapshot \<Rightarrow> nat" where
  "npoints f = length (passes f)"

text \<open>Lines 282-283, inside the loop over the particles of the buckets.\<close>

fun stage1_energy :: "real \<Rightarrow> particle list \<Rightarrow> real list \<Rightarrow> real list option" where
  "stage1_energy m [] energy = Some energy"
| "stage1_energy m (p # ps) energy =
     (if pid p < length energy then
        (case vel p of (v0, v1, v2) \<Rightarrow>
           stage1_energy m ps (energy[pid p := 0.5 * m * (v0 * v0 + v1 * v1 + v2 * v2)]))
      else None)"

text \<open>Lines 377-381: one vector through \<open>phi\<close>.\<close>

fun clamp_all :: "real \<Rightarrow> real \<Rightarrow> real list \<Rightarrow> real list option" where
  "clamp_all tmin tmax [] = Some []"
| "clamp_all tmin tmax (x # xs) =
     do { y \<leftarrow> phi x tmin tmax; ys \<leftarrow> clamp_all tmin tmax xs; Some (y # ys) }"

text \<open>
  Lines 397-401 on the clamped vectors: \<open>std::floor\<close> of a double, stored in an int.
\<close>

definition ndiffuse_at :: "SimulationParams \<Rightarrow> real \<Rightarrow> real \<Rightarrow> real \<Rightarrow> real \<Rightarrow> int" where
  "ndiffuse_at sp dt en ita wc = \<lfloor>en * (KTA sp * ita + KWC sp * wc) * dt\<rfloor>"

definition stage5 :: "SimulationParams \<Rightarrow> real \<Rightarrow> real list \<Rightarrow> real list \<Rightarrow> real list \<Rightarrow> int list" where
  "stage5 sp dt energy ita wc =
     map (\<lambda>i. ndiffuse_at sp dt (energy ! i) (ita ! i) (wc ! i)) [0..<length energy]"

subsection \<open>Stage 6: the spawner\<close>

definition solveEq ::
  "real \<Rightarrow> real \<Rightarrow> real \<Rightarrow> real \<Rightarrow> real \<Rightarrow> real \<Rightarrow> real \<Rightarrow> real \<Rightarrow> real option" where
  "solveEq px py pz vx vy vz x y =
     do { d \<leftarrow> fdiv (- (x - px) * vx - (y - py) * vy) vz; Some (d + pz) }"

text \<open>Lines 442-456: \<open>e1\<close> from the position and the velocity of the source particle.\<close>

definition spawn_e1 :: "vec3 \<Rightarrow> vec3 \<Rightarrow> vec3 option" where
  "spawn_e1 x v = (case (x, v) of ((x0, x1, x2), (v0, v1, v2)) \<Rightarrow>
     if v0 \<noteq> 0 then do { s \<leftarrow> solveEq x2 x1 x0 v2 v1 v0 0 1; normalize (s, 1, 0) }
     else if v1 \<noteq> 0 then do { s \<leftarrow> solveEq x0 x2 x1 v0 v2 v1 1 0; normalize (1, s, 0) }
     else do { s \<leftarrow> solveEq x0 x1 x2 v0 v1 v2 1 0; normalize (1, 0, s) })"

text \<open>Lines 460-462.\<close>

definition spawn_e2 :: "vec3 \<Rightarrow> vec3 \<Rightarrow> vec3 option" where
  "spawn_e2 e1 v = (case (e1, v) of ((a0, a1, a2), (v0, v1, v2)) \<Rightarrow>
     normalize (a1 * v2 - v1 * a2, a0 * v2 - v0 * a2, a0 * v1 - v0 * a1))"

text \<open>
  The conversion of a double to an int truncates towards zero (a value outside the range
  of int is undefined in C++ and is not modelled).
\<close>

definition to_int :: "real \<Rightarrow> int" where
  "to_int x = (if 0 \<le> x then \<lfloor>x\<rfloor> else \<lceil>x\<rceil>)"

text \<open>
  Lines 468-491: the diffuse particle written at index \<open>idif\<close> when the counter is
  \<open>difId\<close>. The counter is a \<open>long\<close> (64 bits), the id vector holds \<open>int\<close>: the
  assignment keeps the low 32 bits.
\<close>

definition spawn_particle ::
  "SimulationParams \<Rightarrow> real \<Rightarrow> (nat \<Rightarrow> real) \<Rightarrow> particle \<Rightarrow> vec3 \<Rightarrow> vec3 \<Rightarrow> vec3 \<Rightarrow> int
   \<Rightarrow> nat \<Rightarrow> 64 word \<Rightarrow> diffuse" where
  "spawn_particle sp dt rnd p e1 e2 nvel nd idif difId =
     (case (pos p, vel p, e1, e2, nvel) of
        ((x0, x1, x2), (v0, v1, v2), (a0, a1, a2), (b0, b1, b2), (n0, n1, n2)) \<Rightarrow>
       let hh = rnd (idif * 3) * (magnitude (v0, v1, v2) * dt) * 0.5;
           r = sp_h sp * sqrt (rnd (idif * 3 + 1));
           theta = rnd (idif * 3 + 2) * 2 * pi
       in \<lparr> dPosit = (x0 + r * cos theta * a0 + r * sin theta * b0 + hh * n0,
                      x1 + r * cos theta * a1 + r * sin theta * b1 + hh * n1,
                      x2 + r * cos theta * a2 + r * sin theta * b2 + hh * n2),
            dVel = (r * cos theta * a0 + r * sin theta * b0 + v0,
                    r * cos theta * a1 + r * sin theta * b1 + v1,
                    r * cos theta * a2 + r * sin theta * b2 + v2),
            dIds = ucast difId,
            dTTL = to_int (real_of_int nd * LIFEFIME sp),
            dDensity = 0 \<rparr>)"

text \<open>
  Lines 467-495: the loop over \<open>j\<close>, on the state \<open>(idif, difId, diffuse vectors)\<close>.
  A write past the end of the vectors is \<open>None\<close>.
\<close>

fun spawn_loop ::
  "(nat \<Rightarrow> 64 word \<Rightarrow> diffuse) \<Rightarrow> nat \<Rightarrow> nat \<times> 64 word \<times> diffuse list
   \<Rightarrow> (nat \<times> 64 word \<times> diffuse list) option" where
  "spawn_loop mk 0 st = Some st"
| "spawn_loop mk (Suc j) (idif, difId, arr) =
     (if idif < length arr
      then spawn_loop mk j (idif + 1, difId + 1, arr[idif := mk idif difId])
      else None)"

text \<open>Lines 428-498: the loop over the particles of the buckets.\<close>

fun stage6 ::
  "SimulationParams \<Rightarrow> real \<Rightarrow> (nat \<Rightarrow> real) \<Rightarrow> int list \<Rightarrow> particle list
   \<Rightarrow> nat \<times> 64 word \<times> diffuse list \<Rightarrow> (nat \<times> 64 word \<times> diffuse list) option" where
  "stage6 sp dt rnd ndiffuse [] st = Some st"
| "stage6 sp dt rnd ndiffuse (p # ps) st =
     (if pid p < length ndiffuse then
        if ndiffuse ! pid p \<ge> 1 then
          do { e1 \<leftarrow> spawn_e1 (pos p) (vel p);
               e2 \<leftarrow> spawn_e2 e1 (vel p);
               nvel \<leftarrow> normalize (vel p);
               st' \<leftarrow> spawn_loop (spawn_particle sp dt rnd p e1 e2 nvel (ndiffuse ! pid p))
                        (nat (ndiffuse ! pid p)) st;
               stage6 sp dt rnd ndiffuse ps st' }
        else stage6 sp dt rnd ndiffuse ps st
      else None)"

subsection \<open>Stage 7: density of the new particles\<close>

definition density_at :: "real \<Rightarrow> (vec3 \<Rightarrow> particle list) \<Rightarrow> vec3 \<Rightarrow> real" where
  "density_at hh nb x =
     real (length (filter (\<lambda>pj. magnitude (substract x (pos pj)) \<le> hh) (nb x)))"

definition stage7 :: "SimulationParams \<Rightarrow> (vec3 \<Rightarrow> particle list) \<Rightarrow> diffuse list \<Rightarrow> diffuse list" where
  "stage7 sp nb arr =
     map (\<lambda>d. d\<lparr>dDensity := dDensity d + density_at (sp_h sp) nb (dPosit d)\<rparr>) arr"

subsection \<open>Stage 8: update of the persistent particles\<close>

text \<open>Lines 541-549: numerator and denominator of the smoothed fluid velocity.\<close>

fun smoothed :: "real \<Rightarrow> vec3 \<Rightarrow> particle list \<Rightarrow> vec3 \<times> real \<Rightarrow> vec3 \<times> real" where
  "smoothed hh x [] acc = acc"
| "smoothed hh x (pj # ps) ((n0, n1, n2), den) =
     (let tval = Wwendland (substract x (pos pj)) hh in
      case vel pj of (w0, w1, w2) \<Rightarrow>
        smoothed hh x ps ((n0 + w0 * tval, n1 + w1 * tval, n2 + w2 * tval), den + tval))"

text \<open>Lines 553-558, the spray branch.\<close>

definition spray_step :: "real \<Rightarrow> real \<Rightarrow> diffuse \<Rightarrow> diffuse" where
  "spray_step dt dens d = (case (dPosit d, dVel d) of ((x0, x1, x2), (v0, v1, v2)) \<Rightarrow>
     let w2 = v2 + - 9.81 * dt in
     d\<lparr>dPosit := (x0 + dt * v0, x1 + dt * v1, x2 + dt * w2),
       dVel := (v0, v1, w2), dDensity := dens\<rparr>)"

text \<open>Lines 560-567, the bubble branch.\<close>

definition bubble_step :: "SimulationParams \<Rightarrow> real \<Rightarrow> real \<Rightarrow> vec3 \<times> real \<Rightarrow> diffuse \<Rightarrow> diffuse option" where
  "bubble_step sp dt dens nd d =
     (case (dPosit d, dVel d, nd) of ((x0, x1, x2), (v0, v1, v2), (n0, n1, n2), den) \<Rightarrow>
     do { m0 \<leftarrow> fdiv n0 den; m1 \<leftarrow> fdiv n1 den; m2 \<leftarrow> fdiv n2 den;
          a0 \<leftarrow> fdiv (KD sp * (m0 - v0)) dt;
          a1 \<leftarrow> fdiv (KD sp * (m1 - v1)) dt;
          a2 \<leftarrow> fdiv (KD sp * (m2 - v2)) dt;
          let w0 = v0 + dt * a0; w1 = v1 + dt * a1;
              w2 = v2 + dt * (- KB sp * - 9.81 + a2) in
          Some (d\<lparr>dPosit := (x0 + dt * w0, x1 + dt * w1, x2 + dt * w2),
                  dVel := (w0, w1, w2), dDensity := dens\<rparr>) })"

text \<open>Lines 569-576, the foam branch.\<close>

definition foam_step :: "real \<Rightarrow> real \<Rightarrow> vec3 \<times> real \<Rightarrow> diffuse \<Rightarrow> diffuse option" where
  "foam_step dt dens nd d =
     (case (dPosit d, nd) of ((x0, x1, x2), (n0, n1, n2), den) \<Rightarrow>
     do { m0 \<leftarrow> fdiv n0 den; m1 \<leftarrow> fdiv n1 den; m2 \<leftarrow> fdiv n2 den;
          Some (d\<lparr>dPosit := (x0 + dt * m0, x1 + dt * m1, x2 + dt * m2),
                  dVel := (m0, m1, m2), dDensity := dens\<rparr>) })"

text \<open>Lines 523-577, the body of the loop for one persistent particle.\<close>

definition update_particle ::
  "SimulationParams \<Rightarrow> real \<Rightarrow> (vec3 \<Rightarrow> particle list) \<Rightarrow> diffuse \<Rightarrow> diffuse option" where
  "update_particle sp dt nb d =
     (let dens = density_at (sp_h sp) nb (dPosit d);
          nd = (if dens \<ge> SPRAY sp
                then smoothed (sp_h sp) (dPosit d) (nb (dPosit d)) ((0, 0, 0), 0)
                else ((0, 0, 0), 0))
      in if dens < SPRAY sp then Some (spray_step dt dens d)
         else if dens > BUBBLES sp then bubble_step sp dt dens nd d
         else foam_step dt dens nd d)"

fun stage8 ::
  "SimulationParams \<Rightarrow> real \<Rightarrow> (vec3 \<Rightarrow> particle list) \<Rightarrow> diffuse list \<Rightarrow> diffuse list option" where
  "stage8 sp dt nb [] = Some []"
| "stage8 sp dt nb (d # ds) =
     do { d' \<leftarrow> update_particle sp dt nb d; ds' \<leftarrow> stage8 sp dt nb ds; Some (d' # ds') }"

subsection \<open>Stages 9 to 11: delete, append, write\<close>

text \<open>Lines 588-589.\<close>

definition decrease_ttl :: "SimulationParams \<Rightarrow> diffuse \<Rightarrow> diffuse" where
  "decrease_ttl sp d =
     (if dDensity d > SPRAY sp \<and> dDensity d < BUBBLES sp then d\<lparr>dTTL := dTTL d - 1\<rparr> else d)"

text \<open>Lines 593-595, the condition under the negation.\<close>

definition deleted :: "SimulationParams \<Rightarrow> diffuse \<Rightarrow> bool" where
  "deleted sp d = (case dPosit d of (x0, x1, x2) \<Rightarrow>
     dTTL d < 0 \<or> x0 \<le> MINX sp \<or> x1 \<le> MINY sp \<or> x2 \<le> MINZ sp
               \<or> x0 \<ge> MAXX sp \<or> x1 \<ge> MAXY sp \<or> x2 \<ge> MAXZ sp)"

text \<open>Lines 586-608: the loop that fills the \<open>temp*\<close> vectors, which replace the pool.\<close>

fun stage9 :: "SimulationParams \<Rightarrow> diffuse list \<Rightarrow> diffuse list" where
  "stage9 sp [] = []"
| "stage9 sp (d # ds) =
     (let d' = decrease_ttl sp d in
      if \<not> deleted sp d' then d' # stage9 sp ds else stage9 sp ds)"

text \<open>Lines 617-623.\<close>

definition stage10 :: "int \<Rightarrow> diffuse list \<Rightarrow> diffuse list \<Rightarrow> diffuse list" where
  "stage10 npdiffuse pp newborn = (if npdiffuse > 0 then pp @ newborn else pp)"

text \<open>Lines 647-652 and 696-701: the particle type written to the files.\<close>

definition ttype :: "SimulationParams \<Rightarrow> diffuse \<Rightarrow> nat" where
  "ttype sp d = (if dDensity d < SPRAY sp then 0 else if dDensity d > BUBBLES sp then 2 else 1)"

text \<open>Lines 644-654: the rows of the text file, one for each particle of the pool.\<close>

definition text_rows :: "SimulationParams \<Rightarrow> diffuse list \<Rightarrow> (vec3 \<times> nat) list" where
  "text_rows sp pp = map (\<lambda>d. (dPosit d, ttype sp d)) pp"

subsection \<open>One frame and the driver loop\<close>

text \<open>Lines 184-188: the index into the schedule for frame \<open>n\<close>, and the entry read.\<close>

definition advance_tstep :: "TimeOut list \<Rightarrow> nat \<Rightarrow> int \<Rightarrow> nat" where
  "advance_tstep ts tstep_idx n =
     (if tstep_idx + 1 < length ts \<and> n > nstep (ts ! (tstep_idx + 1))
      then tstep_idx + 1 else tstep_idx)"

definition timeout_at :: "TimeOut list \<Rightarrow> nat \<Rightarrow> TimeOut option" where
  "timeout_at ts tstep_idx = (if tstep_idx < length ts then Some (ts ! tstep_idx) else None)"

text \<open>
  What a frame leaves: the counter, the pool, the new particles with the number of
  entries the spawner wrote, the pool after the delete stage, the text rows, and the
  clamped fields and \<open>ndiffuse\<close> (the arrays of the fluid file, lines 768-773).
\<close>

record frame_result =
  fr_difId :: "64 word"
  fr_pp :: "diffuse list"
  fr_newborn :: "diffuse list"
  fr_idif :: nat
  fr_survivors :: "diffuse list"
  fr_rows :: "(vec3 \<times> nat) list"
  fr_ndiffuse :: "int list"
  fr_energy :: "real list"
  fr_Ita :: "real list"
  fr_waveCrest :: "real list"

definition zero_diffuse :: diffuse where
  "zero_diffuse = \<lparr> dPosit = (0, 0, 0), dVel = (0, 0, 0), dIds = 0, dTTL = 0, dDensity = 0 \<rparr>"

text \<open>Lines 204-654 for one loaded snapshot, with time step \<open>dt\<close>.\<close>

definition frame ::
  "SimulationParams \<Rightarrow> real \<Rightarrow> snapshot \<Rightarrow> 64 word \<Rightarrow> diffuse list \<Rightarrow> frame_result option" where
  "frame sp dt f difId pp =
     do { energy \<leftarrow> stage1_energy (mass sp) (fluid f) (replicate (npoints f) 0);
          wc \<leftarrow> clamp_all (MINWC sp) (MAXWC sp) (map snd (passes f));
          ita \<leftarrow> clamp_all (MINTA sp) (MAXTA sp) (map fst (passes f));
          en \<leftarrow> clamp_all (MINK sp) (MAXK sp) energy;
          let ndiffuse = stage5 sp dt en ita wc;
              npdiffuse = sum_list ndiffuse in
          if npdiffuse < 0 then None
          else
            do { (idif, difId', arr) \<leftarrow>
                   stage6 sp dt (tempRand f) ndiffuse (fluid f)
                     (0, difId, replicate (nat npdiffuse) zero_diffuse);
                 let newborn = stage7 sp (surrounding f) arr in
                 do { pp8 \<leftarrow> stage8 sp dt (surrounding f) pp;
                      let pp9 = stage9 sp pp8;
                          pp10 = stage10 npdiffuse pp9 newborn in
                      Some \<lparr> fr_difId = difId', fr_pp = pp10, fr_newborn = newborn,
                             fr_idif = idif, fr_survivors = pp9,
                             fr_rows = text_rows sp pp10, fr_ndiffuse = ndiffuse,
                             fr_energy = en, fr_Ita = ita, fr_waveCrest = wc \<rparr> } } }"

text \<open>
  Lines 173-188 and 201-202: the loop over the frames. \<open>load n\<close> is the snapshot of frame
  \<open>n\<close>, \<open>None\<close> when the file cannot be opened, which ends the loop. The result lists, for
  each frame done, the index into the schedule that gave its time step and what the
  frame left.
\<close>

function runSimulation_loop ::
  "SimulationParams \<Rightarrow> (int \<Rightarrow> snapshot option) \<Rightarrow> int \<Rightarrow> nat \<Rightarrow> 64 word \<Rightarrow> diffuse list
   \<Rightarrow> (nat \<times> frame_result) list option" where
  "runSimulation_loop sp load n tstep_idx difId pp =
     (if n \<le> nend sp then
        (let idx = advance_tstep (timesteps sp) tstep_idx n in
         case timeout_at (timesteps sp) idx of
           None \<Rightarrow> None
         | Some timeout \<Rightarrow>
             (case load n of
                None \<Rightarrow> Some []
              | Some f \<Rightarrow>
                  (case frame sp (tout timeout) f difId pp of
                     None \<Rightarrow> None
                   | Some r \<Rightarrow>
                       map_option ((#) (idx, r))
                         (runSimulation_loop sp load (n + 1) idx (fr_difId r) (fr_pp r)))))
      else Some [])"
  by pat_completeness auto
termination
  by (relation "measure (\<lambda>(sp, load, n, tstep_idx, difId, pp). nat (nend sp + 1 - n))") auto

declare runSimulation_loop.simps [simp del]

definition runSimulation ::
  "SimulationParams \<Rightarrow> (int \<Rightarrow> snapshot option) \<Rightarrow> (nat \<times> frame_result) list option" where
  "runSimulation sp load = runSimulation_loop sp load (nstart sp) 0 0 []"

subsection \<open>Properties named by the specification, and concrete inputs\<close>

text \<open>A strictly interior position: inside the domain box on every axis.\<close>

definition strictly_inside :: "SimulationParams \<Rightarrow> diffuse \<Rightarrow> bool" where
  "strictly_inside sp d = (case dPosit d of (x0, x1, x2) \<Rightarrow>
     MINX sp < x0 \<and> x0 < MAXX sp \<and> MINY sp < x1 \<and> x1 < MAXY sp
     \<and> MINZ sp < x2 \<and> x2 < MAXZ sp)"

text \<open>
  The index into the schedule as the specification's driver computes it, with a loop
  that passes every entry the frame is beyond.
\<close>

function spec_advance :: "TimeOut list \<Rightarrow> nat \<Rightarrow> int \<Rightarrow> nat" where
  "spec_advance ts tstep_idx n =
     (if tstep_idx + 1 < length ts \<and> n > nstep (ts ! (tstep_idx + 1))
      then spec_advance ts (tstep_idx + 1) n else tstep_idx)"
  by pat_completeness auto
termination
  by (relation "measure (\<lambda>(ts, i, n). length ts - i)") auto

declare spec_advance.simps [simp del]

text \<open>
  The index used by frame \<open>n + k\<close> when the index before frame \<open>n\<close> is \<open>tstep_idx\<close>:
  as the source computes it, and as the specification's loop does.
\<close>

fun tstep_from :: "TimeOut list \<Rightarrow> nat \<Rightarrow> int \<Rightarrow> nat \<Rightarrow> nat" where
  "tstep_from ts tstep_idx n 0 = advance_tstep ts tstep_idx n"
| "tstep_from ts tstep_idx n (Suc k) = tstep_from ts (advance_tstep ts tstep_idx n) (n + 1) k"

fun spec_from :: "TimeOut list \<Rightarrow> nat \<Rightarrow> int \<Rightarrow> nat \<Rightarrow> nat" where
  "spec_from ts tstep_idx n 0 = spec_advance ts tstep_idx n"
| "spec_from ts tstep_idx n (Suc k) = spec_from ts (spec_advance ts tstep_idx n) (n + 1) k"

text \<open>No entry after index \<open>i\<close> is passed by frame \<open>n\<close>: the loop stops at \<open>i\<close>.\<close>

definition settled :: "TimeOut list \<Rightarrow> nat \<Rightarrow> int \<Rightarrow> bool" where
  "settled ts i n = (\<not> (i + 1 < length ts \<and> n > nstep (ts ! (i + 1))))"

text \<open>
  Stage 8 on one particle over \<open>N\<close> frames that have the same time step and the same
  fluid neighbourhood.
\<close>

fun update_frames ::
  "SimulationParams \<Rightarrow> real \<Rightarrow> (vec3 \<Rightarrow> particle list) \<Rightarrow> nat \<Rightarrow> diffuse \<Rightarrow> diffuse option" where
  "update_frames sp dt nb 0 d = Some d"
| "update_frames sp dt nb (Suc N) d =
     do { d' \<leftarrow> update_particle sp dt nb d; update_frames sp dt nb N d' }"





text \<open>
  Parameters used at concrete inputs: the domain box is \<open>[0, 10]\<^sup>3\<close>, the thresholds are
  \<open>SPRAY = 6\<close> and \<open>BUBBLES = 20\<close>, the time step is 1, the frames are 0 to \<open>2\<^sup>3\<^sup>0\<close>.
\<close>

definition box_params :: SimulationParams where
  "box_params = \<lparr> nstart = 0, nend = 1073741824, sp_h = 1, mass = 2,
     MINX = 0, MINY = 0, MINZ = 0, MAXX = 10, MAXY = 10, MAXZ = 10,
     MINTA = 0, MAXTA = 1, MINWC = 0, MAXWC = 1, MINK = 0, MAXK = 1, KTA = 2, KWC = 0,
     SPRAY = 6, BUBBLES = 20, LIFEFIME = 3, KB = 0, KD = 0,
     timesteps = [\<lparr> nstep = - 1, tout = 1 \<rparr>, \<lparr> nstep = 0, tout = 1 \<rparr>] \<rparr>"

text \<open>
  A snapshot of one fluid particle half a unit from the face \<open>x = MAXX\<close>, moving
  towards it; the draws put each new particle on the axis of the velocity.
\<close>

definition near_wall :: particle where
  "near_wall = \<lparr> pid = 0, pos = (19 / 2, 5, 5), vel = (4, 0, 0), rhop = 1000 \<rparr>"

definition snap1 :: snapshot where
  "snap1 = \<lparr> fluid = [near_wall], surrounding = (\<lambda>x. [near_wall]),
             passes = [(2, 0)], tempRand = (\<lambda>k. if k mod 3 = 0 then 1 / 2 else 0) \<rparr>"

definition e1w :: vec3 where
  "e1w = ((19 / 2) / sqrt (365 / 4), 1 / sqrt (365 / 4), 0)"

definition newborn1 :: "32 word \<Rightarrow> diffuse" where
  "newborn1 i =
     \<lparr> dPosit = (21 / 2, 5, 5), dVel = (4, 0, 0), dIds = i, dTTL = 6, dDensity = 1 \<rparr>"


definition risen :: diffuse where
  "risen = \<lparr> dPosit = (5, 5, 5), dVel = (0, 0, 0), dIds = 7, dTTL = 2, dDensity = 0 \<rparr>"

text \<open>
  What a frame on \<open>snap1\<close> leaves when the counter is \<open>c\<close> and no persistent particle
  survives: two new particles beyond the face \<open>x = MAXX\<close>.
\<close>

definition spawn_two :: "64 word \<Rightarrow> frame_result" where
  "spawn_two c = \<lparr> fr_difId = c + 2,
        fr_pp = [newborn1 (ucast c), newborn1 (ucast (c + 1))],
        fr_newborn = [newborn1 (ucast c), newborn1 (ucast (c + 1))], fr_idif = 2,
        fr_survivors = [],
        fr_rows = [((21 / 2, 5, 5), 0), ((21 / 2, 5, 5), 0)],
        fr_ndiffuse = [2], fr_energy = [1], fr_Ita = [1], fr_waveCrest = [0] \<rparr>"








text \<open>A schedule with an entry for each of the first three frames.\<close>

definition dense_schedule :: "TimeOut list" where
  "dense_schedule = [\<lparr> nstep = 0, tout = 1 / 10 \<rparr>, \<lparr> nstep = 1, tout = 2 / 10 \<rparr>,
                     \<lparr> nstep = 2, tout = 3 / 10 \<rparr>]"

text \<open>Two frames can be loaded, the third cannot.\<close>

definition load2 :: "int \<Rightarrow> snapshot option" where
  "load2 n = (if n \<le> 1 then Some snap1 else None)"


text \<open>Six fluid particles at the point \<open>(5, 5, 5)\<close>, moving along x.\<close>

definition six_around :: "vec3 \<Rightarrow> particle list" where
  "six_around x =
     map (\<lambda>i. \<lparr> pid = i, pos = (5, 5, 5), vel = (1, 0, 0), rhop = 1000 \<rparr>) [0..<6]"

text \<open>A diffuse particle at rest with id 0, given by position, ttl and density.\<close>

definition still :: "vec3 \<Rightarrow> int \<Rightarrow> real \<Rightarrow> diffuse" where
  "still x t dens = \<lparr> dPosit = x, dVel = (0, 0, 0), dIds = 0, dTTL = t, dDensity = dens \<rparr>"

section \<open>The clamping function\<close>

lemma phi_below: "tmin < tmax \<Longrightarrow> I \<le> tmin \<Longrightarrow> phi I tmin tmax = Some 0"
  by (simp add: phi_def fdiv_def min_def)

lemma phi_above: "tmin < tmax \<Longrightarrow> tmax \<le> I \<Longrightarrow> phi I tmin tmax = Some 1"
  by (simp add: phi_def fdiv_def min_def)

lemma phi_ramp:
  "tmin < tmax \<Longrightarrow> tmin \<le> I \<Longrightarrow> I \<le> tmax \<Longrightarrow>
   phi I tmin tmax = Some ((I - tmin) / (tmax - tmin))"
  by (simp add: phi_def fdiv_def min_def)

lemma phi_range:
  assumes "tmin < tmax"
  obtains y where "phi I tmin tmax = Some y" "0 \<le> y" "y \<le> 1"
proof -
  consider "I \<le> tmin" | "tmin \<le> I" "I \<le> tmax" | "tmax \<le> I"
    by linarith
  then show thesis
  proof cases
    case 1
    with assms that [of 0] show thesis by (simp add: phi_below)
  next
    case 2
    with assms have "0 \<le> (I - tmin) / (tmax - tmin)" "(I - tmin) / (tmax - tmin) \<le> 1"
      by (simp_all add: divide_simps)
    with 2 assms that [of "(I - tmin) / (tmax - tmin)"] show thesis
      by (simp add: phi_ramp)
  next
    case 3
    with assms that [of 1] show thesis by (simp add: phi_above)
  qed
qed

text \<open>
  C3. For every \<open>tmin < tmax\<close> the clamping function \<open>phi I tmin tmax\<close> is 0 for every
  \<open>I \<le> tmin\<close>, 1 for every \<open>I \<ge> tmax\<close>, the linear ramp \<open>(I - tmin) / (tmax - tmin)\<close>
  in between, so its value lies in \<open>[0, 1]\<close>; at \<open>tmin - 1\<close>, \<open>tmin\<close>,
  \<open>(tmin + tmax) / 2\<close>, \<open>tmax\<close>, \<open>tmax + 1\<close> it is 0, 0, 1/2, 1, 1.
\<close>

theorem phi_clamp:
  assumes "tmin < tmax"
  shows "(I \<le> tmin \<longrightarrow> phi I tmin tmax = Some 0)
       \<and> (tmax \<le> I \<longrightarrow> phi I tmin tmax = Some 1)
       \<and> (tmin \<le> I \<and> I \<le> tmax \<longrightarrow> phi I tmin tmax = Some ((I - tmin) / (tmax - tmin)))
       \<and> (\<exists>y. phi I tmin tmax = Some y \<and> 0 \<le> y \<and> y \<le> 1)
       \<and> phi (tmin - 1) tmin tmax = Some 0
       \<and> phi tmin tmin tmax = Some 0
       \<and> phi ((tmin + tmax) / 2) tmin tmax = Some (1 / 2)
       \<and> phi tmax tmin tmax = Some 1
       \<and> phi (tmax + 1) tmin tmax = Some 1"
proof -
  have mid: "phi ((tmin + tmax) / 2) tmin tmax = Some (1 / 2)"
  proof -
    have "phi ((tmin + tmax) / 2) tmin tmax
        = Some (((tmin + tmax) / 2 - tmin) / (tmax - tmin))"
      using assms by (intro phi_ramp) simp_all
    moreover have "((tmin + tmax) / 2 - tmin) / (tmax - tmin) = 1 / 2"
      using assms by (simp add: field_simps)
    ultimately show ?thesis by simp
  qed
  have rng: "\<exists>y. phi I tmin tmax = Some y \<and> 0 \<le> y \<and> y \<le> 1"
    using phi_range [OF assms, of I] by blast
  show ?thesis
    using assms mid rng by (simp add: phi_below phi_above phi_ramp)
qed

theorem phi_clamp_witness:
  "(2::real) < 4
   \<and> phi 1 2 4 = Some 0 \<and> phi 2 2 4 = Some 0 \<and> phi 3 2 4 = Some (1 / 2)
   \<and> phi 4 2 4 = Some 1 \<and> phi 5 2 4 = Some 1"
  using phi_clamp [of 2 4 1] phi_clamp [of 2 4 3] phi_clamp [of 2 4 5] by simp

section \<open>The delete stage and the lifetime\<close>




lemma dPosit_decrease [simp]: "dPosit (decrease_ttl sp d) = dPosit d"
  by (simp add: decrease_ttl_def)

lemma inside_decrease [simp]: "strictly_inside sp (decrease_ttl sp d) = strictly_inside sp d"
  by (simp add: strictly_inside_def)



subsection \<open>Evaluation at concrete inputs\<close>

lemma sqrt_16: "sqrt 16 = 4"
  by (rule real_sqrt_unique) (simp_all add: power2_eq_square)

lemma sqrt_169: "sqrt 169 = 13"
  by (rule real_sqrt_unique) (simp_all add: power2_eq_square)

lemma sqrt_25_16: "sqrt (25 / 16) = 5 / 4"
  by (rule real_sqrt_unique) (simp_all add: power2_eq_square)

lemma sqrt_16_25: "sqrt (16 / 25) = 4 / 5"
  by (rule real_sqrt_unique) (simp_all add: power2_eq_square)

lemma upt_6: "[0..<6] = [0, 1, 2, 3, 4, 5]"
  by (simp add: upt_rec)

lemma density_six_around: "density_at 1 six_around (5, 5, 5) = 6"
  by (simp add: density_at_def six_around_def upt_6)

lemma Wwendland_origin: "Wwendland (0, 0, 0) 1 = 21 / (16 * pi)"
  by (simp add: Wwendland_def)

lemma smoothed_six_around:
  "smoothed 1 (5, 5, 5) (six_around (5, 5, 5)) ((0, 0, 0), 0)
     = ((6 * (21 / (16 * pi)), 0, 0), 6 * (21 / (16 * pi)))"
  by (simp add: six_around_def upt_6 Wwendland_origin)

lemma update_six_around:
  "update_particle box_params 1 six_around (still (5, 5, 5) 3 0)
     = Some \<lparr> dPosit = (6, 5, 5), dVel = (1, 0, 0), dIds = 0, dTTL = 3, dDensity = 6 \<rparr>"
  by (simp add: update_particle_def box_params_def density_six_around smoothed_six_around
        still_def foam_step_def fdiv_def)

text \<open>
  C4. The lifetime of a persistent particle is decremented exactly when the particle is
  foam, that is when \<open>SPRAY \<le> density \<le> BUBBLES\<close>. The source tests
  \<open>SPRAY < density < BUBBLES\<close>: with \<open>SPRAY = 6\<close> and \<open>BUBBLES = 20\<close>, a particle
  with six fluid particles within \<open>h\<close> is moved by the foam branch of stage 8 and is
  written to the files as foam (type 1), yet keeps its lifetime of 3 through stage 9;
  so does a particle of density 20, while one of density 7 goes from 3 to 2.
\<close>

theorem foam_boundary_keeps_ttl:
  "update_particle box_params 1 six_around (still (5, 5, 5) 3 0)
     = Some \<lparr> dPosit = (6, 5, 5), dVel = (1, 0, 0), dIds = 0, dTTL = 3, dDensity = 6 \<rparr>
   \<and> SPRAY box_params = 6 \<and> BUBBLES box_params = 20
   \<and> ttype box_params
        \<lparr> dPosit = (6, 5, 5), dVel = (1, 0, 0), dIds = 0, dTTL = 3, dDensity = 6 \<rparr> = 1
   \<and> stage9 box_params
        [\<lparr> dPosit = (6, 5, 5), dVel = (1, 0, 0), dIds = 0, dTTL = 3, dDensity = 6 \<rparr>]
       = [\<lparr> dPosit = (6, 5, 5), dVel = (1, 0, 0), dIds = 0, dTTL = 3, dDensity = 6 \<rparr>]
   \<and> ttype box_params (still (5, 5, 5) 3 20) = 1
   \<and> stage9 box_params [still (5, 5, 5) 3 20] = [still (5, 5, 5) 3 20]
   \<and> stage9 box_params [still (5, 5, 5) 3 7] = [still (5, 5, 5) 2 7]"
  by (simp add: update_six_around)
     (simp add: box_params_def still_def decrease_ttl_def deleted_def ttype_def)

section \<open>The basis of the spawner\<close>

lemma spawn_e1_off_origin: "spawn_e1 (3 / 4, 0, 0) (1, 0, 0) = Some (3 / 5, 4 / 5, 0)"
  by (simp add: spawn_e1_def solveEq_def fdiv_def normalize_def sqrt_25_16)

lemma spawn_e2_off_origin: "spawn_e2 (3 / 5, 4 / 5, 0) (1, 0, 0) = Some (0, 0, - 1)"
  by (simp add: spawn_e2_def fdiv_def normalize_def sqrt_16_25)

lemma spawn_e1_origin: "spawn_e1 (0, 0, 0) (4, - 3, 12) = Some (3 / 5, 4 / 5, 0)"
  by (simp add: spawn_e1_def solveEq_def fdiv_def normalize_def sqrt_25_16)

lemma spawn_e2_origin:
  "spawn_e2 (3 / 5, 4 / 5, 0) (4, - 3, 12) = Some (48 / 65, 36 / 65, - 5 / 13)"
  by (simp add: spawn_e2_def fdiv_def normalize_def sqrt_169)

text \<open>
  C7. For a source particle with nonzero velocity \<open>v\<close> that spawns, \<open>e1\<close> and \<open>e2\<close> are
  an orthonormal pair perpendicular to \<open>v\<close>. The source does not compute such a pair.
  \<open>solveEq\<close> gives a point of the plane through the particle's position, so \<open>e1\<close> is
  perpendicular to \<open>v\<close> only when the position is: at position \<open>(3/4, 0, 0)\<close> with
  velocity \<open>(1, 0, 0)\<close>, \<open>e1 = (3/5, 4/5, 0)\<close> and \<open>e1 \<cdot> v = 3/5\<close>. The second
  component of the product in \<open>e2\<close> has the opposite sign of a cross product: at the origin
  with velocity \<open>(4, -3, 12)\<close>, \<open>e1 \<cdot> v = 0\<close> but \<open>e2 \<cdot> v = -216/65\<close> and
  \<open>e1 \<cdot> e2 = 288/325\<close>. Both vectors have magnitude 1.
\<close>

theorem spawn_basis_not_orthogonal:
  "spawn_e1 (3 / 4, 0, 0) (1, 0, 0) = Some (3 / 5, 4 / 5, 0)
   \<and> dotProduct (3 / 5, 4 / 5, 0) (1, 0, 0) = 3 / 5
   \<and> spawn_e1 (0, 0, 0) (4, - 3, 12) = Some (3 / 5, 4 / 5, 0)
   \<and> spawn_e2 (3 / 5, 4 / 5, 0) (4, - 3, 12) = Some (48 / 65, 36 / 65, - 5 / 13)
   \<and> dotProduct (3 / 5, 4 / 5, 0) (4, - 3, 12) = 0
   \<and> dotProduct (48 / 65, 36 / 65, - 5 / 13) (4, - 3, 12) = - 216 / 65
   \<and> dotProduct (3 / 5, 4 / 5, 0) (48 / 65, 36 / 65, - 5 / 13) = 288 / 325
   \<and> magnitude (3 / 5, 4 / 5, 0) = 1
   \<and> magnitude (48 / 65, 36 / 65, - 5 / 13) = 1"
  by (simp add: spawn_e1_off_origin spawn_e1_origin spawn_e2_origin)

section \<open>Structure of the spawner and of a frame\<close>


lemma dIds_spawn_particle [simp]:
  "dIds (spawn_particle sp dt rnd p e1 e2 nvel n idif c) = ucast c"
  by (simp add: spawn_particle_def Let_def split: prod.splits)




lemma length_stage7 [simp]: "length (stage7 sp nb arr) = length arr"
  by (simp add: stage7_def)












section \<open>Frames and a run at concrete inputs\<close>

lemma stage1_snap1:
  "stage1_energy (mass box_params) (fluid snap1) (replicate (npoints snap1) 0) = Some [16]"
  by (simp add: box_params_def snap1_def near_wall_def npoints_def)

lemma phi_unit: "phi 16 0 1 = Some 1" "phi 2 0 1 = Some 1" "phi 0 0 1 = Some 0"
  by (simp_all add: phi_def fdiv_def)

lemma stage5_snap1: "stage5 box_params 1 [1] [1] [0] = [2]"
  by (simp add: stage5_def ndiffuse_at_def box_params_def)

lemma spawn_e1_snap1: "spawn_e1 (pos near_wall) (vel near_wall) = Some e1w"
  by (simp add: spawn_e1_def near_wall_def solveEq_def fdiv_def normalize_def e1w_def)

lemma spawn_e2_snap1: "spawn_e2 e1w (vel near_wall) = Some (0, 0, - 1)"
  by (simp add: e1w_def spawn_e2_def near_wall_def fdiv_def normalize_def
        real_sqrt_divide real_sqrt_mult sqrt_16)

lemma normalize_snap1: "normalize (vel near_wall) = Some (1, 0, 0)"
  by (simp add: near_wall_def fdiv_def normalize_def sqrt_16)

lemma tempRand_snap1:
  "tempRand snap1 (k * 3) = 1 / 2" "tempRand snap1 (Suc (k * 3)) = 0"
  "tempRand snap1 (Suc (Suc (k * 3))) = 0"
proof -
  have "Suc (k * 3) mod 3 = 1" "Suc (Suc (k * 3)) mod 3 = 2" by presburger+
  then show "tempRand snap1 (k * 3) = 1 / 2" "tempRand snap1 (Suc (k * 3)) = 0"
    "tempRand snap1 (Suc (Suc (k * 3))) = 0"
    by (simp_all add: snap1_def)
qed

lemma spawn_particle_snap1:
  "spawn_particle box_params 1 (tempRand snap1) near_wall e1w (0, 0, - 1) (1, 0, 0) 2 k c
   = \<lparr> dPosit = (21 / 2, 5, 5), dVel = (4, 0, 0), dIds = ucast c, dTTL = 6, dDensity = 0 \<rparr>"
  by (simp add: spawn_particle_def tempRand_snap1 near_wall_def box_params_def sqrt_16
        to_int_def e1w_def)

lemma stage6_snap1:
  "stage6 box_params 1 (tempRand snap1) [2] (fluid snap1) (0, c, replicate 2 zero_diffuse)
   = Some (2, c + 2,
       [\<lparr> dPosit = (21 / 2, 5, 5), dVel = (4, 0, 0), dIds = ucast c, dTTL = 6, dDensity = 0 \<rparr>,
        \<lparr> dPosit = (21 / 2, 5, 5), dVel = (4, 0, 0), dIds = ucast (c + 1), dTTL = 6,
          dDensity = 0 \<rparr>])"
proof -
  have f: "fluid snap1 = [near_wall]" by (simp add: snap1_def)
  have p: "pid near_wall = 0" by (simp add: near_wall_def)
  show ?thesis
    by (simp add: f p spawn_e1_snap1 spawn_e2_snap1 normalize_snap1 spawn_particle_snap1
          numeral_2_eq_2 add.assoc)
qed

lemma density_snap1:
  "density_at 1 (surrounding snap1) (21 / 2, 5, 5) = 1"
  "density_at 1 (surrounding snap1) (5, 5, 5) = 0"
  by (simp_all add: density_at_def snap1_def near_wall_def)

lemma stage7_snap1:
  "stage7 box_params (surrounding snap1)
     [\<lparr> dPosit = (21 / 2, 5, 5), dVel = (4, 0, 0), dIds = i, dTTL = 6, dDensity = 0 \<rparr>,
      \<lparr> dPosit = (21 / 2, 5, 5), dVel = (4, 0, 0), dIds = j, dTTL = 6, dDensity = 0 \<rparr>]
   = [newborn1 i, newborn1 j]"
  by (simp add: stage7_def box_params_def density_snap1 newborn1_def)

lemma thresholds: "SPRAY box_params = 6" "BUBBLES box_params = 20"
  by (simp_all add: box_params_def)

lemma frame_snap1:
  assumes "stage8 box_params 1 (surrounding snap1) pp = Some pp8" "stage9 box_params pp8 = []"
  shows "frame box_params 1 snap1 c pp = Some (spawn_two c)"
proof -
  have p: "MINWC box_params = 0" "MAXWC box_params = 1" "MINTA box_params = 0"
    "MAXTA box_params = 1" "MINK box_params = 0" "MAXK box_params = 1"
    by (simp_all add: box_params_def)
  have q: "passes snap1 = [(2, 0)]" by (simp add: snap1_def)
  have rows: "text_rows box_params [newborn1 i, newborn1 j]
      = [((21 / 2, 5, 5), 0), ((21 / 2, 5, 5), 0)]" for i j
    by (simp add: text_rows_def ttype_def newborn1_def thresholds)
  show ?thesis
    unfolding frame_def
    by (simp add: stage1_snap1 p q phi_unit stage5_snap1 stage6_snap1 stage7_snap1 assms
          stage10_def Let_def rows spawn_two_def del: stage8.simps stage9.simps)
qed

lemma frame_snap1_empty: "frame box_params 1 snap1 c [] = Some (spawn_two c)"
  by (rule frame_snap1 [of "[]" "[]"]) simp_all

lemma stage8_newborn:
  "stage8 box_params 1 (surrounding snap1) [newborn1 i, newborn1 j]
    = Some [\<lparr> dPosit = (29 / 2, 5, - (481 / 100)), dVel = (4, 0, - (981 / 100)), dIds = i,
              dTTL = 6, dDensity = 1 \<rparr>,
            \<lparr> dPosit = (29 / 2, 5, - (481 / 100)), dVel = (4, 0, - (981 / 100)), dIds = j,
              dTTL = 6, dDensity = 1 \<rparr>]"
  by (simp add: update_particle_def box_params_def newborn1_def density_snap1 spray_step_def)

lemma stage9_newborn:
  "stage9 box_params
     [\<lparr> dPosit = (29 / 2, 5, - (481 / 100)), dVel = (4, 0, - (981 / 100)), dIds = i,
        dTTL = 6, dDensity = 1 \<rparr>,
      \<lparr> dPosit = (29 / 2, 5, - (481 / 100)), dVel = (4, 0, - (981 / 100)), dIds = j,
        dTTL = 6, dDensity = 1 \<rparr>] = []"
  by (simp add: decrease_ttl_def deleted_def box_params_def)

lemma frame_snap1_newborn:
  "frame box_params 1 snap1 c [newborn1 i, newborn1 j] = Some (spawn_two c)"
  by (rule frame_snap1 [OF stage8_newborn stage9_newborn])

lemma run_two_frames:
  "runSimulation_loop box_params load2 0 0 c [] = Some [(0, spawn_two c), (1, spawn_two (c + 2))]"
proof -
  have p: "nend box_params = 1073741824"
    "timesteps box_params = [\<lparr> nstep = - 1, tout = 1 \<rparr>, \<lparr> nstep = 0, tout = 1 \<rparr>]"
    by (simp_all add: box_params_def)
  have a: "fr_difId (spawn_two c) = c + 2"
    "fr_pp (spawn_two c) = [newborn1 (ucast c), newborn1 (ucast (c + 1))]"
    by (simp_all add: spawn_two_def)
  have third: "runSimulation_loop box_params load2 2 (Suc 0) c' pp = Some []" for c' pp
    by (subst runSimulation_loop.simps)
       (simp add: p advance_tstep_def timeout_at_def load2_def)
  have second: "runSimulation_loop box_params load2 1 0 (c + 2)
        [newborn1 (ucast c), newborn1 (ucast (c + 1))] = Some [(1, spawn_two (c + 2))]"
    by (subst runSimulation_loop.simps)
       (simp add: p advance_tstep_def timeout_at_def load2_def frame_snap1_newborn third)
  show ?thesis
    by (subst runSimulation_loop.simps)
       (simp add: p advance_tstep_def timeout_at_def load2_def frame_snap1_empty a second)
qed



section \<open>The number of diffuse particles\<close>




section \<open>The ids of the diffuse particles\<close>

lemma loop_ConsD:
  assumes "runSimulation_loop sp load n i c pp = Some (x # fs)"
  shows "\<exists>(tmo :: TimeOut) f r. n \<le> nend sp
     \<and> timeout_at (timesteps sp) (advance_tstep (timesteps sp) i n) = Some tmo
     \<and> load n = Some f
     \<and> frame sp (tout tmo) f c pp = Some r
     \<and> x = (advance_tstep (timesteps sp) i n, r)
     \<and> runSimulation_loop sp load (n + 1) (advance_tstep (timesteps sp) i n)
          (fr_difId r) (fr_pp r) = Some fs"
  using assms
  by (subst (asm) runSimulation_loop.simps)
     (auto simp: Let_def split: if_splits option.splits)







lemma run_two: "runSimulation box_params load2 = Some [(0, spawn_two 0), (1, spawn_two 2)]"
  using run_two_frames [of 0] by (simp add: runSimulation_def box_params_def)







section \<open>The append of the new particles\<close>

subsection \<open>A frame that carries particles back into the box\<close>













subsection \<open>The pool at the end of a frame\<close>






section \<open>The trajectory of a spray particle\<close>

lemma density_empty [simp]: "density_at hh (\<lambda>x. []) x = 0"
  by (simp add: density_at_def)

lemma update_no_neighbours:
  "0 < SPRAY sp \<Longrightarrow> update_particle sp dt (\<lambda>x. []) d = Some (spray_step dt 0 d)"
  by (simp add: update_particle_def)

lemma spray_frames_Suc:
  assumes "0 < SPRAY sp"
  shows "update_frames sp dt (\<lambda>x. []) (Suc N)
           \<lparr> dPosit = (x0, x1, x2), dVel = (v0, v1, v2), dIds = i, dTTL = t, dDensity = r \<rparr>
     = Some \<lparr> dPosit = (x0 + real (Suc N) * dt * v0, x1 + real (Suc N) * dt * v1,
                     x2 + v2 * (real (Suc N) * dt) - 9.81 / 2 * (real (Suc N) * dt)\<^sup>2
                        - 9.81 / 2 * dt * (real (Suc N) * dt)),
              dVel = (v0, v1, v2 - 9.81 * (real (Suc N) * dt)),
              dIds = i, dTTL = t, dDensity = 0 \<rparr>"
proof (induction N arbitrary: x0 x1 x2 v2 r)
  case 0
  then show ?case
    using assms by (simp add: update_no_neighbours spray_step_def power2_eq_square algebra_simps)
next
  case (Suc N)
  show ?case
    apply (subst update_frames.simps)
    apply (simp only: update_no_neighbours [OF assms] bind.bind_lunit)
    apply (simp only: spray_step_def Let_def diffuse.simps prod.case diffuse.update_convs)
    apply (subst Suc.IH)
    apply (simp add: power2_eq_square field_simps)
    done
qed

text \<open>
  C6, as the source has it. A diffuse particle with no fluid particle around it (and
  \<open>SPRAY > 0\<close>) is spray in every frame. The source updates the velocity first and moves
  the particle with the new velocity, so after \<open>N\<close> frames of time step \<open>dt\<close>, at
  \<open>t = N * dt\<close>, its height is \<open>z0 + vz * t - g/2 * t\<^sup>2 - g/2 * dt * t\<close> with \<open>g = 9.81\<close>:
  below the projectile trajectory by \<open>g/2 * dt * t\<close>.
\<close>

theorem spray_trajectory:
  assumes "0 < SPRAY sp" "0 < N" "dPosit d = (x0, x1, z0)" "dVel d = (v0, v1, vz)" "t = real N * dt"
  shows "\<exists>d'. update_frames sp dt (\<lambda>x. []) N d = Some d'
     \<and> dPosit d' = (x0 + v0 * t, x1 + v1 * t, z0 + vz * t - 9.81 / 2 * t\<^sup>2 - 9.81 / 2 * dt * t)
     \<and> dVel d' = (v0, v1, vz - 9.81 * t)
     \<and> snd (snd (dPosit d')) - (z0 + vz * t - 9.81 / 2 * t\<^sup>2) = - (9.81 / 2 * dt * t)"
proof -
  obtain M where N: "N = Suc M" using assms(2) by (cases N) simp_all
  have d: "d = \<lparr> dPosit = (x0, x1, z0), dVel = (v0, v1, vz), dIds = dIds d, dTTL = dTTL d,
                 dDensity = dDensity d \<rparr>"
    using assms(3,4) by simp
  show ?thesis
    apply (subst d)
    apply (simp only: N spray_frames_Suc [OF assms(1)] assms(5))
    apply (simp add: algebra_simps)
    done
qed

theorem spray_trajectory_witness:
  "0 < SPRAY box_params \<and> dPosit (still (5, 5, 5) 3 0) = (5, 5, 5)
   \<and> dVel (still (5, 5, 5) 3 0) = (0, 0, 0)
   \<and> (\<exists>d'. update_frames box_params (1 / 100) (\<lambda>x. []) 2 (still (5, 5, 5) 3 0) = Some d'
          \<and> dPosit d' = (5, 5, 5 - 2943 / 1000000) \<and> dVel d' = (0, 0, - (981 / 5000)))"
proof -
  have h: "0 < SPRAY box_params" "(0::nat) < 2" "dPosit (still (5, 5, 5) 3 0) = (5, 5, 5)"
    "dVel (still (5, 5, 5) 3 0) = (0, 0, 0)" "(2 / 100 :: real) = real 2 * (1 / 100)"
    by (simp_all add: box_params_def still_def)
  from spray_trajectory [OF h] h(1,3,4) show ?thesis
    by (auto simp: power2_eq_square)
qed

text \<open>
  One frame with \<open>dt = 0.01\<close> from rest at height 5: the particle is at
  \<open>5 - 0.000981\<close>, the projectile at \<open>5 - 0.0004905\<close>.
\<close>

theorem spray_trajectory_counterexample:
  "update_frames box_params (1 / 100) (\<lambda>x. []) 1 (still (5, 5, 5) 3 0)
     = Some \<lparr> dPosit = (5, 5, 5 - 981 / 1000000), dVel = (0, 0, - 981 / 10000), dIds = 0,
              dTTL = 3, dDensity = 0 \<rparr>
   \<and> \<not> \<bar>(5 - 981 / 1000000) - (5 + 0 * (1 / 100) - 1 / 2 * 9.81 * (1 / 100)\<^sup>2)\<bar>
         \<le> (1 / 10 ^ 9 :: real)"
  by (simp add: update_particle_def box_params_def still_def spray_step_def power2_eq_square)

section \<open>The index into the schedule of time steps\<close>

lemma spec_advance_settled: "settled ts i n \<Longrightarrow> spec_advance ts i n = i"
  by (subst spec_advance.simps) (auto simp: settled_def)

lemma increasing_step:
  assumes "sorted_wrt (<) (map nstep ts)" "i + 1 < length ts"
  shows "nstep (ts ! i) < nstep (ts ! (i + 1))"
  using assms sorted_wrt_nth_less [of "(<)" "map nstep ts" i "i + 1"] by simp

lemma advance_agree:
  assumes inc: "sorted_wrt (<) (map nstep ts)"
    and prev: "settled ts i (n - 1) \<or> (i = 0 \<and> (2 < length ts \<longrightarrow> n \<le> nstep (ts ! 2)))"
  shows "spec_advance ts i n = advance_tstep ts i n \<and> settled ts (advance_tstep ts i n) n"
proof (cases "i + 1 < length ts \<and> n > nstep (ts ! (i + 1))")
  case False
  then have "settled ts i n" by (simp add: settled_def)
  with False show ?thesis
    by (simp add: spec_advance_settled advance_tstep_def)
next
  case True
  then have adv: "advance_tstep ts i n = i + 1" by (simp add: advance_tstep_def)
  have "settled ts (i + 1) n"
  proof (cases "i + 2 < length ts")
    case False
    then show ?thesis by (simp add: settled_def)
  next
    case lt: True
    have "nstep (ts ! (i + 1)) < nstep (ts ! (i + 2))"
      using increasing_step [OF inc, of "i + 1"] lt by (simp add: numeral_2_eq_2)
    moreover from prev have "n - 1 \<le> nstep (ts ! (i + 1)) \<or> n \<le> nstep (ts ! (i + 2))"
      using True lt by (auto simp: settled_def numeral_2_eq_2)
    ultimately have "n \<le> nstep (ts ! (i + 2))" by linarith
    then show ?thesis by (simp add: settled_def add.commute numeral_2_eq_2)
  qed
  moreover have "spec_advance ts i n = spec_advance ts (i + 1) n"
    using True by (subst spec_advance.simps) simp
  ultimately show ?thesis
    by (simp add: adv spec_advance_settled)
qed

lemma from_agree:
  assumes inc: "sorted_wrt (<) (map nstep ts)"
    and prev: "settled ts i (n - 1) \<or> (i = 0 \<and> (2 < length ts \<longrightarrow> n \<le> nstep (ts ! 2)))"
  shows "spec_from ts i n k = tstep_from ts i n k"
  using prev
proof (induction k arbitrary: i n)
  case 0
  then show ?case using advance_agree [OF inc, of i n] by simp
next
  case (Suc k)
  have a: "spec_advance ts i n = advance_tstep ts i n" "settled ts (advance_tstep ts i n) n"
    using advance_agree [OF inc Suc.prems] by simp_all
  have "spec_from ts (advance_tstep ts i n) (n + 1) k = tstep_from ts (advance_tstep ts i n) (n + 1) k"
    by (rule Suc.IH) (simp add: a)
  then show ?case by (simp add: a)
qed

lemma loop_index:
  "runSimulation_loop sp load n i c pp = Some fs \<Longrightarrow> k < length fs \<Longrightarrow>
   fst (fs ! k) = tstep_from (timesteps sp) i n k
   \<and> (\<exists>f c' pp'. fst (fs ! k) < length (timesteps sp)
         \<and> frame sp (tout (timesteps sp ! fst (fs ! k))) f c' pp' = Some (snd (fs ! k)))"
proof (induction k arbitrary: n i c pp fs)
  case 0
  then obtain x fs' where fs: "fs = x # fs'" by (cases fs) simp_all
  let ?i = "advance_tstep (timesteps sp) i n"
  from loop_ConsD [OF "0.prems"(1) [unfolded fs]] obtain tmo :: TimeOut and f r where
    t: "timeout_at (timesteps sp) ?i = Some tmo"
    and fr: "frame sp (tout tmo) f c pp = Some r" and x: "x = (?i, r)"
    by blast
  from t have lt: "?i < length (timesteps sp)" and tmo: "tmo = timesteps sp ! ?i"
    by (auto simp: timeout_at_def split: if_splits)
  from fr tmo have "\<exists>f c' pp'. frame sp (tout (timesteps sp ! ?i)) f c' pp' = Some r"
    by blast
  with lt show ?case
    by (simp add: fs x)
next
  case (Suc k)
  then obtain x fs' where fs: "fs = x # fs'" by (cases fs) simp_all
  from loop_ConsD [OF Suc.prems(1) [unfolded fs]] obtain r :: frame_result where
    rest: "runSimulation_loop sp load (n + 1) (advance_tstep (timesteps sp) i n)
          (fr_difId r) (fr_pp r) = Some fs'"
    by blast
  from Suc.prems(2) have "k < length fs'" by (simp add: fs)
  from Suc.IH [OF rest this] obtain f :: snapshot and c' pp' where
    e: "fst (fs' ! k)
          = tstep_from (timesteps sp) (advance_tstep (timesteps sp) i n) (n + 1) k"
    and l: "fst (fs' ! k) < length (timesteps sp)"
    and fr: "frame sp (tout (timesteps sp ! fst (fs' ! k))) f c' pp' = Some (snd (fs' ! k))"
    by blast
  have nth: "fs ! Suc k = fs' ! k" by (simp add: fs)
  show ?case
    unfolding nth tstep_from.simps using e l fr by blast
qed

text \<open>
  C8, as the source has it. For each frame the driver advances the index into the
  schedule by at most one entry (an \<open>if\<close>, not a loop): the index becomes
  \<open>tstep_idx + 1\<close> when there is a next entry and the frame is beyond its \<open>nstep\<close>, and
  stays otherwise; the time step of the frame is the \<open>tout\<close> of the entry at the index.
  This is the index of the specification's loop in every frame when the \<open>nstep\<close> of the
  schedule are strictly increasing and the first frame is not beyond the third entry.
\<close>

theorem schedule_index_one_step:
  "(advance_tstep ts i n = i + 1 \<longleftrightarrow> i + 1 < length ts \<and> nstep (ts ! (i + 1)) < n)
   \<and> (advance_tstep ts i n = i \<or> advance_tstep ts i n = i + 1)
   \<and> (runSimulation sp load = Some fs \<and> k < length fs \<longrightarrow>
        fst (fs ! k) = tstep_from (timesteps sp) 0 (nstart sp) k
        \<and> (\<exists>f c pp. fst (fs ! k) < length (timesteps sp)
              \<and> frame sp (tout (timesteps sp ! fst (fs ! k))) f c pp = Some (snd (fs ! k))))
   \<and> (sorted_wrt (<) (map nstep ts) \<and> (2 < length ts \<longrightarrow> n0 \<le> nstep (ts ! 2))
        \<longrightarrow> tstep_from ts 0 n0 j = spec_from ts 0 n0 j)"
proof -
  have a: "advance_tstep ts i n = i + 1 \<longleftrightarrow> i + 1 < length ts \<and> nstep (ts ! (i + 1)) < n"
    by (simp add: advance_tstep_def)
  have b: "advance_tstep ts i n = i \<or> advance_tstep ts i n = i + 1"
    by (simp add: advance_tstep_def)
  have c: "fst (fs ! k) = tstep_from (timesteps sp) 0 (nstart sp) k
        \<and> (\<exists>f c pp. fst (fs ! k) < length (timesteps sp)
              \<and> frame sp (tout (timesteps sp ! fst (fs ! k))) f c pp = Some (snd (fs ! k)))"
    if "runSimulation sp load = Some fs" "k < length fs"
    using that unfolding runSimulation_def by (rule loop_index)
  have d: "tstep_from ts 0 n0 j = spec_from ts 0 n0 j"
    if "sorted_wrt (<) (map nstep ts)" "2 < length ts \<longrightarrow> n0 \<le> nstep (ts ! 2)"
    using from_agree [of ts 0 n0 j] that by simp
  from a b c d show ?thesis by blast
qed

text \<open>
  The run of two frames on \<open>box_params\<close> uses the entries 0 and 1; on \<open>dense_schedule\<close>
  from frame 0, frame 2 uses entry 1, as the loop does.
\<close>

theorem schedule_index_one_step_witness:
  "runSimulation box_params load2 = Some [(0, spawn_two 0), (1, spawn_two 2)]
   \<and> tstep_from (timesteps box_params) 0 (nstart box_params) 1 = 1
   \<and> sorted_wrt (<) (map nstep dense_schedule) \<and> 0 \<le> nstep (dense_schedule ! 2)
   \<and> tstep_from dense_schedule 0 0 2 = 1
   \<and> spec_from dense_schedule 0 0 2 = 1"
proof -
  let ?fs = "[(0, spawn_two 0), (1, spawn_two 2)] :: (nat \<times> frame_result) list"
  have k: "1 < length ?fs" by simp
  have s: "sorted_wrt (<) (map nstep dense_schedule)" "0 \<le> nstep (dense_schedule ! 2)"
    by (simp_all add: dense_schedule_def)
  have t: "tstep_from dense_schedule 0 0 2 = 1"
    by (simp add: numeral_2_eq_2 advance_tstep_def dense_schedule_def)
  note T = schedule_index_one_step [of dense_schedule 0 0 box_params load2 ?fs 1 0 2]
  from T run_two k
  have c: "fst (?fs ! 1) = tstep_from (timesteps box_params) 0 (nstart box_params) 1"
    by blast
  from T s have d: "tstep_from dense_schedule 0 0 2 = spec_from dense_schedule 0 0 2"
    by blast
  have e: "fst (?fs ! 1) = 1" by simp
  have "tstep_from (timesteps box_params) 0 (nstart box_params) 1 = 1"
    by (simp only: c [symmetric] e)
  with run_two s t d show ?thesis by simp
qed

text \<open>
  A run that starts at frame 5 on \<open>dense_schedule\<close>: the source stops at entry 1 and
  reads the time step 0.2, the loop of the specification reaches entry 2 and reads 0.3.
\<close>

theorem schedule_index_counterexample:
  "advance_tstep dense_schedule 0 5 = 1 \<and> spec_advance dense_schedule 0 5 = 2
   \<and> timeout_at dense_schedule (advance_tstep dense_schedule 0 5)
       = Some \<lparr> nstep = 1, tout = 2 / 10 \<rparr>
   \<and> timeout_at dense_schedule (spec_advance dense_schedule 0 5)
       = Some \<lparr> nstep = 2, tout = 3 / 10 \<rparr>
   \<and> tstep_from dense_schedule 0 5 0 = 1 \<and> spec_from dense_schedule 0 5 0 = 2"
proof -
  have a: "advance_tstep dense_schedule 0 5 = 1"
    by (simp add: advance_tstep_def dense_schedule_def)
  have b: "spec_advance dense_schedule 0 5 = 2"
    by (simp add: spec_advance.simps dense_schedule_def)
  show ?thesis
    by (simp add: a b) (simp add: timeout_at_def dense_schedule_def)
qed

section \<open>Zero velocity and zero denominator\<close>

lemma magnitude_nonneg [simp]: "0 \<le> magnitude x"
  by (cases x) simp













end
